theory Spec2Isabelle
  imports Main "HOL-Library.Sublist" "HOL-Library.FSet" "HOL-Library.AList"
begin

section \<open>Python values used by the program\<close>

text \<open>
  Strings are \<^typ>\<open>string\<close>; a character stands for a code point below 256. Exceptions are
  values of \<open>py_error\<close>, and a function that may raise returns \<open>py_error + 'a\<close> with
  \<open>Inl\<close> the exception. Text printed on the console is not modelled for the address book;
  for the notebook the printed line is returned as a \<open>message\<close>.
\<close>

datatype py_error = ValueError | TypeError | AttributeError

datatype pyval = VNone | VStr string | VInt int | VList "string list"

text \<open>
  A \<open>dict\<close> keeps its keys in insertion order: assigning to a key that is present replaces
  the value where it stands, assigning to a new key appends it, and \<open>del\<close> removes the
  entry. These are \<^const>\<open>AList.update\<close> and \<^const>\<open>AList.delete\<close> on an association list.
\<close>

definition dict_contains :: "'k \<Rightarrow> ('k \<times> 'v) list \<Rightarrow> bool" where
  "dict_contains k d = (k \<in> set (map fst d))"

definition dict_setitem :: "('k \<times> 'v) list \<Rightarrow> 'k \<Rightarrow> 'v \<Rightarrow> ('k \<times> 'v) list" where
  "dict_setitem d k v = AList.update k v d"

definition dict_delitem :: "('k \<times> 'v) list \<Rightarrow> 'k \<Rightarrow> ('k \<times> 'v) list" where
  "dict_delitem d k = AList.delete k d"

definition dict_values :: "('k \<times> 'v) list \<Rightarrow> 'v list" where
  "dict_values d = map snd d"

text \<open>\<open>d.update(other)\<close> assigns every item of \<open>other\<close> in turn.\<close>

fun dict_update :: "('k \<times> 'v) list \<Rightarrow> ('k \<times> 'v) list \<Rightarrow> ('k \<times> 'v) list" where
  "dict_update d [] = d"
| "dict_update d ((k, v) # other) = dict_update (dict_setitem d k v) other"

section \<open>Fields\<close>

text \<open>
  A \<open>Field\<close> object carries its \<open>value\<close>. No field class defines \<open>__eq__\<close>, so \<open>==\<close> on two
  fields is object identity: \<open>oid\<close> is the identity of the object, and two objects built
  from the same string are different objects. The constructors take the identity of the
  object being built. \<open>Name\<close> and \<open>EmailAddress\<close> objects are fields as well; the pattern
  of \<open>EmailAddress\<close> plays no part in what follows and is left out.
\<close>

record Field =
  oid :: nat
  fvalue :: string

definition field_eq :: "Field \<Rightarrow> Field \<Rightarrow> bool" where
  "field_eq a b = (oid a = oid b)"

definition is_digit :: "char \<Rightarrow> bool" where
  "is_digit c = (48 \<le> (of_char c :: nat) \<and> (of_char c :: nat) \<le> 57)"

definition digit_val :: "char \<Rightarrow> int" where
  "digit_val c = int (of_char c) - 48"

text \<open>
  \<open>PhoneNumber.validate_phone\<close>: \<open>re.compile(r"^\d{9}$").match(value) is not None\<close>.
  \<open>match\<close> starts at the first character, \<open>\d{9}\<close> takes nine digits, and Python's \<open>$\<close>
  (without \<open>re.MULTILINE\<close>) matches at the end of the string and also just before a
  newline that is the last character.
\<close>

definition validate_phone :: "string \<Rightarrow> bool" where
  "validate_phone v =
     (length (take 9 v) = 9 \<and> list_all is_digit (take 9 v) \<and>
      (drop 9 v = [] \<or> drop 9 v = [CHR 0x0A]))"

definition PhoneNumber :: "nat \<Rightarrow> string \<Rightarrow> py_error + Field" where
  "PhoneNumber obj v =
     (if \<not> validate_phone v then Inl ValueError else Inr \<lparr>oid = obj, fvalue = v\<rparr>)"

section \<open>Dates\<close>

text \<open>
  A naive \<open>datetime\<close>. The constructor (and \<open>replace\<close>, which calls it) raises
  \<open>ValueError\<close> for a year outside 1..9999, a month outside 1..12 or a day the month
  does not have. The ordinal of a date follows \<open>_ymd2ord\<close> of the standard library.
\<close>

record datetime =
  year :: int
  month :: int
  day :: int
  hour :: int
  minute :: int
  second :: int
  microsecond :: int

definition is_leap :: "int \<Rightarrow> bool" where
  "is_leap y = (y mod 4 = 0 \<and> (if y mod 100 = 0 then y mod 400 = 0 else True))"

definition days_in_month :: "int \<Rightarrow> int \<Rightarrow> int" where
  "days_in_month y m =
     (if m = 2 then (if is_leap y then 29 else 28)
      else if m = 4 \<or> m = 6 \<or> m = 9 \<or> m = 11 then 30 else 31)"

definition days_before_year :: "int \<Rightarrow> int" where
  "days_before_year y = (y - 1) * 365 + (y - 1) div 4 - (y - 1) div 100 + (y - 1) div 400"

definition days_before_month :: "int \<Rightarrow> int \<Rightarrow> int" where
  "days_before_month y m =
     [0, 0, 31, 59, 90, 120, 151, 181, 212, 243, 273, 304, 334] ! nat m
       + (if m > 2 \<and> is_leap y then 1 else 0)"

definition ymd2ord :: "int \<Rightarrow> int \<Rightarrow> int \<Rightarrow> int" where
  "ymd2ord y m d = days_before_year y + days_before_month y m + d"

definition check_date_fields :: "int \<Rightarrow> int \<Rightarrow> int \<Rightarrow> bool" where
  "check_date_fields y m d =
     (1 \<le> y \<and> y \<le> 9999 \<and> 1 \<le> m \<and> m \<le> 12 \<and> 1 \<le> d \<and> d \<le> days_in_month y m)"

definition replace_year :: "datetime \<Rightarrow> int \<Rightarrow> py_error + datetime" where
  "replace_year dt y =
     (if check_date_fields y (month dt) (day dt) then Inr (dt\<lparr>year := y\<rparr>) else Inl ValueError)"

definition to_microseconds :: "datetime \<Rightarrow> int" where
  "to_microseconds dt =
     ((ymd2ord (year dt) (month dt) (day dt) * 86400
        + hour dt * 3600 + minute dt * 60 + second dt) * 1000000) + microsecond dt"

text \<open>\<open>a > b\<close> on datetimes, and \<open>(a - b).days\<close>: a \<open>timedelta\<close> keeps the floor of the days.\<close>

definition datetime_gt :: "datetime \<Rightarrow> datetime \<Rightarrow> bool" where
  "datetime_gt a b = (to_microseconds a > to_microseconds b)"

definition timedelta_days :: "datetime \<Rightarrow> datetime \<Rightarrow> int" where
  "timedelta_days a b = (to_microseconds a - to_microseconds b) div 86400000000"

text \<open>
  \<open>datetime.strptime(value, "%Y-%m-%d")\<close>. The format compiles to the pattern
  \<open>(\d\d\d\d)-(1[0-2]|0[1-9]|[1-9])-(3[0-1]|[1-2]\d|0[1-9]|[1-9]| [1-9])\<close>, which must
  consume the whole string; the date built from the three numbers is then checked as any
  date is. No month or day alternative contains \<open>-\<close>, so the month is the text between
  the two dashes and the day is the rest.
\<close>

definition strptime_year :: "string \<Rightarrow> int option" where
  "strptime_year s =
     (if length s = 4 \<and> list_all is_digit s
      then Some (foldl (\<lambda>a c. 10 * a + digit_val c) 0 s) else None)"

fun strptime_month :: "string \<Rightarrow> int option" where
  "strptime_month [a, b] =
     (if a = CHR ''1'' \<and> is_digit b \<and> digit_val b \<le> 2 then Some (10 + digit_val b)
      else if a = CHR ''0'' \<and> is_digit b \<and> 1 \<le> digit_val b then Some (digit_val b)
      else None)"
| "strptime_month [a] = (if is_digit a \<and> 1 \<le> digit_val a then Some (digit_val a) else None)"
| "strptime_month _ = None"

fun strptime_day :: "string \<Rightarrow> int option" where
  "strptime_day [a, b] =
     (if a = CHR ''3'' \<and> is_digit b \<and> digit_val b \<le> 1 then Some (30 + digit_val b)
      else if (a = CHR ''1'' \<or> a = CHR ''2'') \<and> is_digit b then Some (10 * digit_val a + digit_val b)
      else if (a = CHR ''0'' \<or> a = CHR '' '') \<and> is_digit b \<and> 1 \<le> digit_val b
        then Some (digit_val b)
      else None)"
| "strptime_day [a] = (if is_digit a \<and> 1 \<le> digit_val a then Some (digit_val a) else None)"
| "strptime_day _ = None"

definition strptime :: "string \<Rightarrow> py_error + datetime" where
  "strptime s =
     (let ys = take 4 s; r1 = drop 4 s;
          ms = takeWhile (\<lambda>c. c \<noteq> CHR ''-'') (drop 1 r1);
          r2 = dropWhile (\<lambda>c. c \<noteq> CHR ''-'') (drop 1 r1)
      in if take 1 r1 = ''-'' \<and> take 1 r2 = ''-'' then
           (case (strptime_year ys, strptime_month ms, strptime_day (drop 1 r2)) of
              (Some y, Some m, Some d) \<Rightarrow>
                (if check_date_fields y m d
                 then Inr \<lparr>year = y, month = m, day = d, hour = 0, minute = 0, second = 0,
                           microsecond = 0\<rparr>
                 else Inl ValueError)
            | _ \<Rightarrow> Inl ValueError)
         else Inl ValueError)"

definition validate_birthdate :: "string \<Rightarrow> bool" where
  "validate_birthdate v = (case strptime v of Inr _ \<Rightarrow> True | Inl _ \<Rightarrow> False)"

definition BirthDate :: "nat \<Rightarrow> string \<Rightarrow> py_error + Field" where
  "BirthDate obj v =
     (if \<not> validate_birthdate v then Inl ValueError else Inr \<lparr>oid = obj, fvalue = v\<rparr>)"

section \<open>Record\<close>

text \<open>
  The \<open>birthdate\<close> attribute holds \<open>None\<close> (the constructor's default), the empty string
  (what \<open>add_contact\<close> passes when the user enters nothing) or a \<open>BirthDate\<close> object. The
  attribute \<open>id\<close> is \<open>rid\<close> here; \<open>None\<close> until the address book assigns it.
\<close>

datatype birthdate_attr = PyNone | EmptyStr | BirthDateObj Field

record Address =
  street :: string
  city :: string
  postal_code :: string
  country :: string

record Record =
  rid :: "int option"
  name :: Field
  phone_numbers :: "Field list"
  email_addresses :: "Field list"
  birthdate :: birthdate_attr
  address :: "Address option"

definition Record_init :: "Field \<Rightarrow> birthdate_attr \<Rightarrow> Record" where
  "Record_init nm bd =
     \<lparr>rid = None, name = nm, phone_numbers = [], email_addresses = [], birthdate = bd,
      address = None\<rparr>"

text \<open>
  \<open>list.remove(x)\<close> deletes the first element \<open>e\<close> with \<open>e == x\<close> and raises \<open>ValueError\<close>
  when there is none; on fields \<open>==\<close> is identity.
\<close>

fun list_remove :: "Field list \<Rightarrow> Field \<Rightarrow> py_error + Field list" where
  "list_remove [] x = Inl ValueError"
| "list_remove (e # es) x =
     (if field_eq e x then Inr es
      else (case list_remove es x of Inl err \<Rightarrow> Inl err | Inr es' \<Rightarrow> Inr (e # es')))"

definition add_phone_number :: "Record \<Rightarrow> Field \<Rightarrow> Record" where
  "add_phone_number r phone_number = r\<lparr>phone_numbers := phone_numbers r @ [phone_number]\<rparr>"

definition remove_phone_number :: "Record \<Rightarrow> Field \<Rightarrow> py_error + Record" where
  "remove_phone_number r phone_number =
     (case list_remove (phone_numbers r) phone_number of
        Inl err \<Rightarrow> Inl err
      | Inr ps \<Rightarrow> Inr (r\<lparr>phone_numbers := ps\<rparr>))"

definition add_email_address :: "Record \<Rightarrow> Field \<Rightarrow> Record" where
  "add_email_address r email_address =
     r\<lparr>email_addresses := email_addresses r @ [email_address]\<rparr>"

definition remove_email_address :: "Record \<Rightarrow> Field \<Rightarrow> py_error + Record" where
  "remove_email_address r email_address =
     (case list_remove (email_addresses r) email_address of
        Inl err \<Rightarrow> Inl err
      | Inr es \<Rightarrow> Inr (r\<lparr>email_addresses := es\<rparr>))"

text \<open>
  \<open>Record.days_to_birthdate\<close>. \<open>datetime.now()\<close> is the argument \<open>now\<close>; it carries the time
  of day. A falsy \<open>birthdate\<close> or a falsy \<open>birthdate.value\<close> returns the message string.
\<close>

definition days_to_birthdate :: "datetime \<Rightarrow> Record \<Rightarrow> py_error + pyval" where
  "days_to_birthdate now r =
     (case birthdate r of
        PyNone \<Rightarrow> Inr (VStr ''Brak daty urodzenia'')
      | EmptyStr \<Rightarrow> Inr (VStr ''Brak daty urodzenia'')
      | BirthDateObj b \<Rightarrow>
          (if fvalue b = [] then Inr (VStr ''Brak daty urodzenia'')
           else
             (case strptime (fvalue b) of
                Inl err \<Rightarrow> Inl err
              | Inr bday \<Rightarrow>
                  (case replace_year bday (year now) of
                     Inl err \<Rightarrow> Inl err
                   | Inr next_birthday \<Rightarrow>
                       (if datetime_gt now next_birthday
                        then (case replace_year next_birthday (year now + 1) of
                                Inl err \<Rightarrow> Inl err
                              | Inr next_birthday' \<Rightarrow>
                                  Inr (VInt (timedelta_days next_birthday' now)))
                        else Inr (VInt (timedelta_days next_birthday now)))))))"

section \<open>AddressBook\<close>

text \<open>
  \<open>AddressBook\<close> is a \<open>UserDict\<close>: \<open>data\<close> is the dict from id to record, kept in insertion
  order. A stored record is taken by value: the record handed to \<open>add_record\<close> is assumed
  not to be an object the book already holds.
\<close>

record AddressBook =
  data :: "(int \<times> Record) list"
  next_id :: int
  free_ids :: "int fset"

definition AddressBook_init :: AddressBook where
  "AddressBook_init = \<lparr>data = [], next_id = 1, free_ids = {||}\<rparr>"

text \<open>The \<open>while\<close> loop of \<open>add_record\<close>; it ends because the keys and the free ids are finite.\<close>

definition used_from :: "AddressBook \<Rightarrow> int set" where
  "used_from b = {k \<in> set (map fst (data b)) \<union> fset (free_ids b). next_id b \<le> k}"

function advance_next_id :: "AddressBook \<Rightarrow> AddressBook" where
  "advance_next_id b =
     (if dict_contains (next_id b) (data b) \<or> next_id b |\<in>| free_ids b
      then advance_next_id (b\<lparr>next_id := next_id b + 1\<rparr>)
      else b)"
  by pat_completeness auto
termination
proof (relation "measure (\<lambda>b. card (used_from b))")
  show "wf (measure (\<lambda>b. card (used_from b)))" by simp
next
  fix b :: AddressBook
  assume live: "dict_contains (next_id b) (data b) \<or> next_id b |\<in>| free_ids b"
  have fin: "finite (used_from b)"
    by (simp add: used_from_def)
  have mem: "next_id b \<in> used_from b"
    using live by (auto simp: used_from_def dict_contains_def)
  have "used_from (b\<lparr>next_id := next_id b + 1\<rparr>) \<subseteq> used_from b - {next_id b}"
    by (auto simp: used_from_def)
  then have "card (used_from (b\<lparr>next_id := next_id b + 1\<rparr>)) \<le> card (used_from b - {next_id b})"
    using fin by (simp add: card_mono)
  also have "\<dots> < card (used_from b)"
    using fin mem by (rule card_Diff1_less)
  finally show "(b\<lparr>next_id := next_id b + 1\<rparr>, b) \<in> measure (\<lambda>b. card (used_from b))"
    by simp
qed

declare advance_next_id.simps [simp del]

text \<open>
  \<open>add_record\<close> returns the record with its id set, and the book. \<open>free_ids.remove\<close> cannot
  raise, since it removes the minimum just taken from the set.
\<close>

definition add_record :: "AddressBook \<Rightarrow> Record \<Rightarrow> Record \<times> AddressBook" where
  "add_record b0 record =
     (let b = advance_next_id b0 in
      if free_ids b \<noteq> {||} then
        (let i = fMin (free_ids b); r = record\<lparr>rid := Some i\<rparr>
         in (r, b\<lparr>data := dict_setitem (data b) i r, free_ids := free_ids b |-| {|i|}\<rparr>))
      else
        (let i = next_id b; r = record\<lparr>rid := Some i\<rparr>
         in (r, b\<lparr>data := dict_setitem (data b) i r, next_id := next_id b + 1\<rparr>)))"


text \<open>
  \<open>str.lower()\<close> on code points below 256: the ASCII capitals, and the Latin-1 capitals
  192..222 except the multiplication sign 215, move up by 32.
\<close>

definition lower_char :: "char \<Rightarrow> char" where
  "lower_char c =
     (let n = (of_char c :: nat)
      in if (65 \<le> n \<and> n \<le> 90) \<or> (192 \<le> n \<and> n \<le> 222 \<and> n \<noteq> 215)
         then char_of (n + 32) else c)"

definition lower :: "string \<Rightarrow> string" where
  "lower s = map lower_char s"

text \<open>
  \<open>find_record\<close>. \<open>scan_fields\<close> is one inner \<open>for\<close> loop: it appends the record at the first
  field whose value contains the term and breaks. \<open>find_loop\<close> is the outer loop: a name
  match appends and continues with the next record; otherwise the phone loop runs and
  then the email loop runs.
\<close>

fun scan_fields :: "string \<Rightarrow> Record \<Rightarrow> Field list \<Rightarrow> Record list \<Rightarrow> Record list" where
  "scan_fields search_term r [] found_records = found_records"
| "scan_fields search_term r (f # fs) found_records =
     (if sublist search_term (fvalue f) then found_records @ [r]
      else scan_fields search_term r fs found_records)"

fun find_loop :: "string \<Rightarrow> Record list \<Rightarrow> Record list \<Rightarrow> Record list" where
  "find_loop search_term [] found_records = found_records"
| "find_loop search_term (r # rs) found_records =
     (if sublist (lower search_term) (lower (fvalue (name r)))
      then find_loop search_term rs (found_records @ [r])
      else find_loop search_term rs
             (scan_fields search_term r (email_addresses r)
                (scan_fields search_term r (phone_numbers r) found_records)))"

definition find_record :: "AddressBook \<Rightarrow> string \<Rightarrow> Record list" where
  "find_record b search_term = find_loop search_term (dict_values (data b)) []"

text \<open>
  How often one record is appended by \<open>find_record\<close>, read off the three tests of the loop
  body: once for a name match; otherwise once for the phones and once more for the emails.
\<close>

definition hit_count :: "string \<Rightarrow> Record \<Rightarrow> nat" where
  "hit_count t r =
     (if sublist (lower t) (lower (fvalue (name r))) then 1
      else (if list_ex (\<lambda>p. sublist t (fvalue p)) (phone_numbers r) then 1 else 0)
         + (if list_ex (\<lambda>e. sublist t (fvalue e)) (email_addresses r) then 1 else 0))"

text \<open>
  Loading. The file is absent, unreadable by \<open>pickle\<close>, or holds a pickled dict.
  \<open>AddressBook.load\<close> updates \<open>data\<close> and recomputes \<open>next_id\<close> when \<open>data\<close> is not empty; it
  catches \<open>FileNotFoundError\<close> only. \<open>load_address_book\<close> builds a new book and assigns
  \<open>data\<close>; it catches every exception and returns a new book.
\<close>

datatype pickle_file = FileNotFound | Corrupt | Pickled "(int \<times> Record) list"

datatype load_error = UnpicklingError

fun py_max :: "int list \<Rightarrow> int" where
  "py_max [] = 0"
| "py_max (x # xs) = foldl max x xs"

definition load :: "AddressBook \<Rightarrow> pickle_file \<Rightarrow> load_error + AddressBook" where
  "load b f =
     (case f of
        FileNotFound \<Rightarrow> Inr b
      | Corrupt \<Rightarrow> Inl UnpicklingError
      | Pickled d \<Rightarrow>
          (let b' = b\<lparr>data := dict_update (data b) d\<rparr>
           in if data b' \<noteq> [] then Inr (b'\<lparr>next_id := py_max (map fst (data b')) + 1\<rparr>)
              else Inr b'))"

definition load_address_book :: "pickle_file \<Rightarrow> AddressBook" where
  "load_address_book f =
     (case f of
        Pickled d \<Rightarrow> AddressBook_init\<lparr>data := d\<rparr>
      | FileNotFound \<Rightarrow> AddressBook_init
      | Corrupt \<Rightarrow> AddressBook_init)"





section \<open>Notebook and Tag\<close>

text \<open>
  A note body is whatever was stored under the title: the driver stores the \<open>str\<close> it read
  from the console, and a body that can carry tags is a \<open>dict\<close> with string keys.
  \<open>Notebook\<close> is a \<open>UserDict\<close> with no attribute besides \<open>data\<close>, so it is that dict.
\<close>

datatype body = StrBody string | DictBody "(string \<times> pyval) list"

type_synonym Notebook = "(string \<times> body) list"

datatype message = Updated | Deleted | TagAdded | NoteNotFound

definition add_note :: "Notebook \<Rightarrow> string \<Rightarrow> body \<Rightarrow> Notebook" where
  "add_note nb note_title note_content = dict_setitem nb note_title note_content"

definition modify_note_content :: "Notebook \<Rightarrow> string \<Rightarrow> body \<Rightarrow> Notebook \<times> message" where
  "modify_note_content nb note_title new_content =
     (if dict_contains note_title nb
      then (dict_setitem nb note_title new_content, Updated)
      else (nb, NoteNotFound))"

definition delete_note :: "Notebook \<Rightarrow> string \<Rightarrow> Notebook \<times> message" where
  "delete_note nb note_title =
     (if dict_contains note_title nb
      then (dict_delitem nb note_title, Deleted)
      else (nb, NoteNotFound))"

text \<open>
  \<open>Tag.tag_note\<close>. The test \<open>"tags" in body\<close> is a key test on a \<open>dict\<close> and a substring
  test on a \<open>str\<close>. On a \<open>str\<close> both branches raise \<open>TypeError\<close>: \<open>body["tags"]\<close> indexes a
  string with a string, and \<open>body["tags"] = [tag]\<close> assigns to an item of a string. On a
  \<open>dict\<close> whose \<open>"tags"\<close> value is not a list, \<open>.append\<close> raises \<open>AttributeError\<close>.
\<close>

definition tag_note :: "Notebook \<Rightarrow> string \<Rightarrow> string \<Rightarrow> py_error + (Notebook \<times> message)" where
  "tag_note nb note_title tag =
     (case map_of nb note_title of
        None \<Rightarrow> Inr (nb, NoteNotFound)
      | Some (StrBody s) \<Rightarrow>
          (if sublist ''tags'' s then Inl TypeError else Inl TypeError)
      | Some (DictBody d) \<Rightarrow>
          (if dict_contains ''tags'' d
           then (case map_of d ''tags'' of
                   Some (VList ts) \<Rightarrow>
                     Inr (dict_setitem nb note_title
                            (DictBody (dict_setitem d ''tags'' (VList (ts @ [tag])))), TagAdded)
                 | _ \<Rightarrow> Inl AttributeError)
           else Inr (dict_setitem nb note_title
                       (DictBody (dict_setitem d ''tags'' (VList [tag]))), TagAdded)))"

section \<open>Properties of the fields\<close>

lemma validate_phone_iff:
  "validate_phone v \<longleftrightarrow>
     (length v = 9 \<and> list_all is_digit v) \<or>
     (\<exists>d. v = d @ [CHR 0x0A] \<and> length d = 9 \<and> list_all is_digit d)"
proof
  assume a: "validate_phone v"
  then have l: "length (take 9 v) = 9" and dg: "list_all is_digit (take 9 v)"
    and r: "drop 9 v = [] \<or> drop 9 v = [CHR 0x0A]"
    by (simp_all add: validate_phone_def)
  have v: "v = take 9 v @ drop 9 v" by simp
  from r show "(length v = 9 \<and> list_all is_digit v) \<or>
     (\<exists>d. v = d @ [CHR 0x0A] \<and> length d = 9 \<and> list_all is_digit d)"
  proof
    assume "drop 9 v = []"
    with v have "v = take 9 v" by simp
    with l dg show ?thesis by metis
  next
    assume "drop 9 v = [CHR 0x0A]"
    with v have "v = take 9 v @ [CHR 0x0A]" by simp
    with l dg show ?thesis by blast
  qed
next
  assume "(length v = 9 \<and> list_all is_digit v) \<or>
     (\<exists>d. v = d @ [CHR 0x0A] \<and> length d = 9 \<and> list_all is_digit d)"
  then show "validate_phone v"
    by (auto simp: validate_phone_def)
qed

lemma PhoneNumber_examples:
  "PhoneNumber obj ''123456789'' = Inr \<lparr>oid = obj, fvalue = ''123456789''\<rparr> \<and>
   PhoneNumber obj ''12345678'' = Inl ValueError \<and>
   PhoneNumber obj ''1234567890'' = Inl ValueError \<and>
   PhoneNumber obj ''12345678a'' = Inl ValueError"
  by (simp add: PhoneNumber_def validate_phone_def is_digit_def)

text \<open>
  C3. The claim says that a \<open>PhoneNumber\<close> is built exactly from the strings of nine
  digits. The four examples of the claim go as it says, but the constructor also accepts
  nine digits followed by a newline: a string of ten characters, not all of them digits.
\<close>

theorem PhoneNumber_accepts_trailing_newline:
  "PhoneNumber 0 (''123456789'' @ [CHR 0x0A])
     = Inr \<lparr>oid = 0, fvalue = ''123456789'' @ [CHR 0x0A]\<rparr> \<and>
   length (''123456789'' @ [CHR 0x0A]) = 10 \<and>
   list_all is_digit (''123456789'' @ [CHR 0x0A]) = False"
  by (simp add: PhoneNumber_def validate_phone_def is_digit_def)

section \<open>Properties of a record\<close>

lemma list_remove_absent:
  "\<not> list_ex (\<lambda>e. field_eq e x) es \<Longrightarrow> list_remove es x = Inl ValueError"
  by (induction es) auto

lemma list_remove_present:
  "list_ex (\<lambda>e. field_eq e x) es \<Longrightarrow>
     list_remove es x =
       Inr (takeWhile (\<lambda>e. \<not> field_eq e x) es @ tl (dropWhile (\<lambda>e. \<not> field_eq e x) es))"
  by (induction es) auto

text \<open>
  C8, as amended. \<open>remove_phone_number(p)\<close> removes the first element of \<open>phone_numbers\<close>
  that is the object \<open>p\<close> itself, whatever the values of the elements before it, and
  raises \<open>ValueError\<close> when \<open>p\<close> is not an element; \<open>remove_email_address\<close> does the same on
  \<open>email_addresses\<close>. \<open>list.remove\<close> changes nothing before it raises, so the record is
  as it was in that case.
\<close>

theorem remove_by_identity:
  "(list_ex (\<lambda>e. field_eq e p) (phone_numbers r) \<longrightarrow>
      remove_phone_number r p =
        Inr (r\<lparr>phone_numbers := takeWhile (\<lambda>e. \<not> field_eq e p) (phone_numbers r)
                                  @ tl (dropWhile (\<lambda>e. \<not> field_eq e p) (phone_numbers r))\<rparr>)) \<and>
   (\<not> list_ex (\<lambda>e. field_eq e p) (phone_numbers r) \<longrightarrow>
      remove_phone_number r p = Inl ValueError) \<and>
   (list_ex (\<lambda>e. field_eq e p) (email_addresses r) \<longrightarrow>
      remove_email_address r p =
        Inr (r\<lparr>email_addresses := takeWhile (\<lambda>e. \<not> field_eq e p) (email_addresses r)
                                  @ tl (dropWhile (\<lambda>e. \<not> field_eq e p) (email_addresses r))\<rparr>)) \<and>
   (\<not> list_ex (\<lambda>e. field_eq e p) (email_addresses r) \<longrightarrow>
      remove_email_address r p = Inl ValueError)"
  by (simp add: remove_phone_number_def remove_email_address_def list_remove_absent
      list_remove_present)

theorem remove_by_identity_witness:
  "list_ex (\<lambda>e. field_eq e \<lparr>oid = 3, fvalue = ''111111111''\<rparr>)
     (phone_numbers \<lparr>rid = None, name = \<lparr>oid = 0, fvalue = ''Jan''\<rparr>,
        phone_numbers = [\<lparr>oid = 1, fvalue = ''111111111''\<rparr>, \<lparr>oid = 2, fvalue = ''222222222''\<rparr>,
                         \<lparr>oid = 3, fvalue = ''111111111''\<rparr>],
        email_addresses = [], birthdate = PyNone, address = None\<rparr>) \<and>
   remove_phone_number
     \<lparr>rid = None, name = \<lparr>oid = 0, fvalue = ''Jan''\<rparr>,
      phone_numbers = [\<lparr>oid = 1, fvalue = ''111111111''\<rparr>, \<lparr>oid = 2, fvalue = ''222222222''\<rparr>,
                       \<lparr>oid = 3, fvalue = ''111111111''\<rparr>],
      email_addresses = [], birthdate = PyNone, address = None\<rparr>
     \<lparr>oid = 3, fvalue = ''111111111''\<rparr>
     = Inr \<lparr>rid = None, name = \<lparr>oid = 0, fvalue = ''Jan''\<rparr>,
            phone_numbers = [\<lparr>oid = 1, fvalue = ''111111111''\<rparr>, \<lparr>oid = 2, fvalue = ''222222222''\<rparr>],
            email_addresses = [], birthdate = PyNone, address = None\<rparr> \<and>
   \<not> list_ex (\<lambda>e. field_eq e \<lparr>oid = 3, fvalue = ''111111111''\<rparr>)
     (email_addresses \<lparr>rid = None, name = \<lparr>oid = 0, fvalue = ''Jan''\<rparr>,
        phone_numbers = [\<lparr>oid = 1, fvalue = ''111111111''\<rparr>, \<lparr>oid = 2, fvalue = ''222222222''\<rparr>,
                         \<lparr>oid = 3, fvalue = ''111111111''\<rparr>],
        email_addresses = [], birthdate = PyNone, address = None\<rparr>) \<and>
   remove_email_address
     \<lparr>rid = None, name = \<lparr>oid = 0, fvalue = ''Jan''\<rparr>,
      phone_numbers = [\<lparr>oid = 1, fvalue = ''111111111''\<rparr>, \<lparr>oid = 2, fvalue = ''222222222''\<rparr>,
                       \<lparr>oid = 3, fvalue = ''111111111''\<rparr>],
      email_addresses = [], birthdate = PyNone, address = None\<rparr>
     \<lparr>oid = 3, fvalue = ''111111111''\<rparr> = Inl ValueError"
  using remove_by_identity
    [of "\<lparr>oid = 3, fvalue = ''111111111''\<rparr>"
        "\<lparr>rid = None, name = \<lparr>oid = 0, fvalue = ''Jan''\<rparr>,
          phone_numbers = [\<lparr>oid = 1, fvalue = ''111111111''\<rparr>, \<lparr>oid = 2, fvalue = ''222222222''\<rparr>,
                           \<lparr>oid = 3, fvalue = ''111111111''\<rparr>],
          email_addresses = [], birthdate = PyNone, address = None\<rparr>"]
  by (simp add: field_eq_def)

text \<open>
  C8 as stated fails: the record holds a phone number with the value \<open>123456789\<close>, and
  removing another \<open>PhoneNumber\<close> object with that value raises \<open>ValueError\<close>.
\<close>

theorem remove_phone_number_by_value_counterexample:
  "list_ex (\<lambda>e. fvalue e = fvalue \<lparr>oid = 2, fvalue = ''123456789''\<rparr>)
     (phone_numbers \<lparr>rid = None, name = \<lparr>oid = 0, fvalue = ''Jan''\<rparr>,
        phone_numbers = [\<lparr>oid = 1, fvalue = ''123456789''\<rparr>],
        email_addresses = [], birthdate = PyNone, address = None\<rparr>) \<and>
   remove_phone_number
     \<lparr>rid = None, name = \<lparr>oid = 0, fvalue = ''Jan''\<rparr>,
      phone_numbers = [\<lparr>oid = 1, fvalue = ''123456789''\<rparr>],
      email_addresses = [], birthdate = PyNone, address = None\<rparr>
     \<lparr>oid = 2, fvalue = ''123456789''\<rparr> = Inl ValueError"
  by (simp add: remove_phone_number_def field_eq_def)

text \<open>
  C4, as amended. For a record whose birthdate is not set (\<open>None\<close>, or the empty string
  the driver passes), \<open>days_to_birthdate\<close> returns the string \<open>Brak daty urodzenia\<close>.
\<close>

theorem days_to_birthdate_unset:
  "birthdate r = PyNone \<or> birthdate r = EmptyStr \<Longrightarrow>
     days_to_birthdate now r = Inr (VStr ''Brak daty urodzenia'')"
  by (auto simp: days_to_birthdate_def)

theorem days_to_birthdate_unset_witness:
  "(birthdate (Record_init \<lparr>oid = 0, fvalue = ''Jan''\<rparr> PyNone) = PyNone \<or>
    birthdate (Record_init \<lparr>oid = 0, fvalue = ''Jan''\<rparr> PyNone) = EmptyStr) \<and>
   days_to_birthdate
     \<lparr>year = 2024, month = 3, day = 1, hour = 12, minute = 0, second = 0, microsecond = 0\<rparr>
     (Record_init \<lparr>oid = 0, fvalue = ''Jan''\<rparr> PyNone) = Inr (VStr ''Brak daty urodzenia'')"
proof -
  have h: "birthdate (Record_init \<lparr>oid = 0, fvalue = ''Jan''\<rparr> PyNone) = PyNone \<or>
           birthdate (Record_init \<lparr>oid = 0, fvalue = ''Jan''\<rparr> PyNone) = EmptyStr"
    by (simp add: Record_init_def)
  show ?thesis
    using h days_to_birthdate_unset [OF h] by (rule conjI)
qed

text \<open>C4 as stated fails: the value returned for an unset birthdate is not \<open>None\<close>.\<close>

theorem days_to_birthdate_unset_counterexample:
  "days_to_birthdate
     \<lparr>year = 2024, month = 3, day = 1, hour = 12, minute = 0, second = 0, microsecond = 0\<rparr>
     (Record_init \<lparr>oid = 0, fvalue = ''Jan''\<rparr> PyNone) \<noteq> Inr VNone"
  by (simp add: days_to_birthdate_def Record_init_def)

text \<open>
  C5. The claim says that the result is 0 exactly on the day of the anniversary. The
  method counts from \<open>datetime.now()\<close>, which carries the time of day: at 10:00 on the
  anniversary itself it returns 364, at 10:00 on the day before it returns 0, and for a
  birthdate on 29 February it raises \<open>ValueError\<close> in a year that has no such day.
\<close>

theorem days_to_birthdate_counts_from_the_clock:
  "days_to_birthdate
     \<lparr>year = 2024, month = 3, day = 7, hour = 10, minute = 0, second = 0, microsecond = 0\<rparr>
     (Record_init \<lparr>oid = 0, fvalue = ''Jan''\<rparr> (BirthDateObj \<lparr>oid = 1, fvalue = ''2000-03-07''\<rparr>))
     = Inr (VInt 364) \<and>
   days_to_birthdate
     \<lparr>year = 2024, month = 3, day = 7, hour = 10, minute = 0, second = 0, microsecond = 0\<rparr>
     (Record_init \<lparr>oid = 0, fvalue = ''Jan''\<rparr> (BirthDateObj \<lparr>oid = 1, fvalue = ''2000-03-08''\<rparr>))
     = Inr (VInt 0) \<and>
   days_to_birthdate
     \<lparr>year = 2023, month = 3, day = 7, hour = 10, minute = 0, second = 0, microsecond = 0\<rparr>
     (Record_init \<lparr>oid = 0, fvalue = ''Jan''\<rparr> (BirthDateObj \<lparr>oid = 1, fvalue = ''2000-02-29''\<rparr>))
     = Inl ValueError"
  by (simp add: days_to_birthdate_def Record_init_def strptime_def strptime_year_def
      is_digit_def digit_val_def check_date_fields_def days_in_month_def is_leap_def
      replace_year_def datetime_gt_def to_microseconds_def ymd2ord_def days_before_year_def
      days_before_month_def timedelta_days_def Let_def)

section \<open>Properties of the address book\<close>

subsection \<open>The loop that advances \<open>next_id\<close>\<close>

lemma advance_next_id_data: "data (advance_next_id b) = data b"
  by (induction b rule: advance_next_id.induct) (subst advance_next_id.simps, simp)

lemma advance_next_id_free_ids: "free_ids (advance_next_id b) = free_ids b"
  by (induction b rule: advance_next_id.induct) (subst advance_next_id.simps, simp)



lemma advance_next_id_fresh:
  "\<not> dict_contains (next_id (advance_next_id b)) (data b) \<and>
   next_id (advance_next_id b) |\<notin>| free_ids b"
proof (induction b rule: advance_next_id.induct)
  case (1 b)
  show ?case
  proof (cases "dict_contains (next_id b) (data b) \<or> next_id b |\<in>| free_ids b")
    case True
    then have "advance_next_id b = advance_next_id (b\<lparr>next_id := next_id b + 1\<rparr>)"
      by (subst advance_next_id.simps) simp
    with "1.IH" [OF True] show ?thesis by simp
  next
    case False
    then have "advance_next_id b = b"
      by (subst advance_next_id.simps) simp
    with False show ?thesis by simp
  qed
qed

lemma add_record_rid:
  "rid (fst (add_record b r)) =
     Some (if free_ids b \<noteq> {||} then fMin (free_ids b) else next_id (advance_next_id b))"
  by (simp add: add_record_def Let_def advance_next_id_free_ids)






subsection \<open>Ids stay below \<open>next_id\<close> in every book built from the empty one\<close>

lemma dict_contains_setitem [simp]:
  "dict_contains k (dict_setitem d i v) \<longleftrightarrow> k = i \<or> dict_contains k d"
  by (auto simp: dict_contains_def dict_setitem_def update_keys)

lemma dict_contains_delitem [simp]:
  "dict_contains k (dict_delitem d i) \<longleftrightarrow> k \<noteq> i \<and> dict_contains k d"
  by (auto simp: dict_contains_def dict_delitem_def delete_keys)










subsection \<open>What \<open>add_record\<close> leaves alone\<close>

lemma update_fresh_append: "k \<notin> set (map fst d) \<Longrightarrow> AList.update k v d = d @ [(k, v)]"
  by (induction d) auto

lemma map_of_append_fresh:
  "k \<in> set (map fst d) \<Longrightarrow> map_of (d @ e) k = map_of d k"
  by (induction d) auto

text \<open>
  C9. When no live key is also a free id, \<open>add_record\<close> stores the record under an id
  that was not a key, at the end of the dict, and every key that was live still maps to
  the record it mapped to. The claim's further conditions (\<open>next_id\<close> not live, the id of
  the record unset) are not needed.
\<close>

theorem add_record_frame:
  assumes disj: "fset (free_ids b) \<inter> set (map fst (data b)) = {}"
  shows "\<exists>i. rid (fst (add_record b r)) = Some i \<and> \<not> dict_contains i (data b) \<and>
             data (snd (add_record b r)) = data b @ [(i, r\<lparr>rid := Some i\<rparr>)] \<and>
             (\<forall>k. dict_contains k (data b) \<longrightarrow>
                  map_of (data (snd (add_record b r))) k = map_of (data b) k)"
proof -
  define i where "i = (if free_ids b \<noteq> {||} then fMin (free_ids b) else next_id (advance_next_id b))"
  have rid: "rid (fst (add_record b r)) = Some i"
    by (simp add: add_record_rid i_def)
  have fresh: "\<not> dict_contains i (data b)"
  proof (cases "free_ids b = {||}")
    case True
    then show ?thesis using advance_next_id_fresh [of b] by (simp add: i_def)
  next
    case False
    then have "fMin (free_ids b) \<in> fset (free_ids b)" by simp
    with disj have "fMin (free_ids b) \<notin> set (map fst (data b))" by blast
    with False show ?thesis by (simp add: i_def dict_contains_def)
  qed
  then have app: "dict_setitem (data b) i (r\<lparr>rid := Some i\<rparr>) = data b @ [(i, r\<lparr>rid := Some i\<rparr>)]"
    by (simp add: dict_setitem_def dict_contains_def update_fresh_append)
  have dat: "data (snd (add_record b r)) = data b @ [(i, r\<lparr>rid := Some i\<rparr>)]"
    using app
    by (cases "free_ids b = {||}")
       (simp_all add: add_record_def Let_def i_def advance_next_id_data advance_next_id_free_ids)
  have keep: "\<forall>k. dict_contains k (data b) \<longrightarrow>
                  map_of (data (snd (add_record b r))) k = map_of (data b) k"
  proof (intro allI impI)
    fix k
    assume "dict_contains k (data b)"
    then have "k \<in> set (map fst (data b))"
      by (simp add: dict_contains_def)
    then have "map_of (data b @ [(i, r\<lparr>rid := Some i\<rparr>)]) k = map_of (data b) k"
      by (rule map_of_append_fresh)
    then show "map_of (data (snd (add_record b r))) k = map_of (data b) k"
      by (simp only: dat)
  qed
  show ?thesis using rid fresh dat keep by blast
qed

theorem add_record_frame_witness:
  "fset (free_ids \<lparr>data = [(1, Record_init \<lparr>oid = 0, fvalue = ''Jan''\<rparr> PyNone)],
                   next_id = 3, free_ids = {|2|}\<rparr>)
     \<inter> set (map fst (data \<lparr>data = [(1, Record_init \<lparr>oid = 0, fvalue = ''Jan''\<rparr> PyNone)],
                             next_id = 3, free_ids = {|2|}\<rparr>)) = {} \<and>
   rid (fst (add_record \<lparr>data = [(1, Record_init \<lparr>oid = 0, fvalue = ''Jan''\<rparr> PyNone)],
                          next_id = 3, free_ids = {|2|}\<rparr>
               (Record_init \<lparr>oid = 1, fvalue = ''Anna''\<rparr> PyNone))) = Some 2 \<and>
   data (snd (add_record \<lparr>data = [(1, Record_init \<lparr>oid = 0, fvalue = ''Jan''\<rparr> PyNone)],
                           next_id = 3, free_ids = {|2|}\<rparr>
                (Record_init \<lparr>oid = 1, fvalue = ''Anna''\<rparr> PyNone)))
     = [(1, Record_init \<lparr>oid = 0, fvalue = ''Jan''\<rparr> PyNone),
        (2, (Record_init \<lparr>oid = 1, fvalue = ''Anna''\<rparr> PyNone)\<lparr>rid := Some 2\<rparr>)]"
proof -
  let ?B = "\<lparr>data = [(1, Record_init \<lparr>oid = 0, fvalue = ''Jan''\<rparr> PyNone)],
            next_id = 3, free_ids = {|2|}\<rparr>"
  let ?R = "Record_init \<lparr>oid = 1, fvalue = ''Anna''\<rparr> PyNone"
  have h: "fset (free_ids ?B) \<inter> set (map fst (data ?B)) = {}"
    by simp
  from add_record_frame [OF h, of ?R]
  obtain i where i: "rid (fst (add_record ?B ?R)) = Some i"
    and d: "data (snd (add_record ?B ?R)) = data ?B @ [(i, ?R\<lparr>rid := Some i\<rparr>)]"
    by blast
  have "rid (fst (add_record ?B ?R)) = Some 2"
    by (simp add: add_record_rid)
  with i have "i = 2" by simp
  with h i d show ?thesis by simp
qed

subsection \<open>Search\<close>

lemma scan_fields_eq:
  "scan_fields t r fs found =
     found @ (if list_ex (\<lambda>f. sublist t (fvalue f)) fs then [r] else [])"
  by (induction fs) auto

lemma find_loop_eq:
  "find_loop t rs found = found @ concat (map (\<lambda>r. replicate (hit_count t r) r) rs)"
  by (induction rs arbitrary: found) (auto simp: scan_fields_eq hit_count_def)

lemma find_record_eq:
  "find_record b t = concat (map (\<lambda>r. replicate (hit_count t r) r) (dict_values (data b)))"
  by (simp add: find_record_def find_loop_eq)

lemma find_record_set:
  "set (find_record b t) = {r \<in> set (dict_values (data b)). 0 < hit_count t r}"
  by (auto simp: find_record_eq)

text \<open>
  C2. The claim says that a matching record is returned at most once. The results do come
  in the order of the dict and hold exactly the matching records, but a record whose name
  does not match, while a phone number and an email address both do, is appended by the
  phone loop and again by the email loop: the search term \<open>1\<close> returns this record twice.
\<close>

theorem find_record_lists_record_twice:
  "find_record
     \<lparr>data = [(1, \<lparr>rid = Some 1, name = \<lparr>oid = 0, fvalue = ''Anna''\<rparr>,
                   phone_numbers = [\<lparr>oid = 1, fvalue = ''123456789''\<rparr>],
                   email_addresses = [\<lparr>oid = 2, fvalue = ''a1@x.pl''\<rparr>],
                   birthdate = PyNone, address = None\<rparr>)],
      next_id = 2, free_ids = {||}\<rparr> ''1''
   = [\<lparr>rid = Some 1, name = \<lparr>oid = 0, fvalue = ''Anna''\<rparr>,
       phone_numbers = [\<lparr>oid = 1, fvalue = ''123456789''\<rparr>],
       email_addresses = [\<lparr>oid = 2, fvalue = ''a1@x.pl''\<rparr>],
       birthdate = PyNone, address = None\<rparr>,
      \<lparr>rid = Some 1, name = \<lparr>oid = 0, fvalue = ''Anna''\<rparr>,
       phone_numbers = [\<lparr>oid = 1, fvalue = ''123456789''\<rparr>],
       email_addresses = [\<lparr>oid = 2, fvalue = ''a1@x.pl''\<rparr>],
       birthdate = PyNone, address = None\<rparr>]"
  by code_simp

subsection \<open>Loading\<close>

lemma py_max_Max: "xs \<noteq> [] \<Longrightarrow> py_max xs = Max (set xs)"
proof (cases xs)
  case Nil
  assume "xs \<noteq> []"
  with Nil show ?thesis by simp
next
  case (Cons x ys)
  have "(\<lambda>a b. max b a) = (max :: int \<Rightarrow> int \<Rightarrow> int)"
    by (simp add: fun_eq_iff max.commute)
  then have "foldl max x ys = fold max ys x"
    by (simp add: foldl_conv_fold)
  also have "\<dots> = Max (set (x # ys))"
    by (rule Max.set_eq_fold [symmetric])
  finally show ?thesis using Cons by simp
qed

lemma load_fresh:
  "load AddressBook_init (Pickled d) = Inr b \<Longrightarrow>
     free_ids b = {||} \<and>
     next_id b = (if data b = [] then 1 else Max (set (map fst (data b))) + 1)"
  by (auto simp: load_def AddressBook_init_def Let_def py_max_Max split: if_splits)

text \<open>
  C7. The claim says that after a load \<open>next_id\<close> is one more than the largest key and
  \<open>free_ids\<close> is empty. \<open>AddressBook.load\<close> on a new book does that, but
  \<open>load_address_book\<close>, which the driver calls, leaves \<open>next_id\<close> at 1 over the keys 1 and
  2, and \<open>AddressBook.load\<close> on a book that has free ids keeps them.
\<close>

theorem load_address_book_next_id_stale:
  "next_id (load_address_book
      (Pickled [(1, Record_init \<lparr>oid = 0, fvalue = ''Jan''\<rparr> PyNone),
                (2, Record_init \<lparr>oid = 1, fvalue = ''Anna''\<rparr> PyNone)])) = 1 \<and>
   map fst (data (load_address_book
      (Pickled [(1, Record_init \<lparr>oid = 0, fvalue = ''Jan''\<rparr> PyNone),
                (2, Record_init \<lparr>oid = 1, fvalue = ''Anna''\<rparr> PyNone)]))) = [1, 2] \<and>
   load \<lparr>data = [], next_id = 3, free_ids = {|1, 2|}\<rparr> (Pickled [])
     = Inr \<lparr>data = [], next_id = 3, free_ids = {|1, 2|}\<rparr>"
  by (simp add: load_address_book_def AddressBook_init_def load_def)

section \<open>Properties of the notebook\<close>

lemma dict_contains_map_of: "dict_contains k d \<longleftrightarrow> map_of d k \<noteq> None"
  by (simp add: dict_contains_def map_of_eq_None_iff)

text \<open>
  C10. For a title that is not in the notebook, \<open>modify_note_content\<close> and \<open>delete_note\<close>
  return the notebook unchanged and only print the not-found line; neither raises.
\<close>

theorem notebook_miss_unchanged:
  "\<not> dict_contains title nb \<Longrightarrow>
     modify_note_content nb title c = (nb, NoteNotFound) \<and>
     delete_note nb title = (nb, NoteNotFound)"
  by (simp add: modify_note_content_def delete_note_def)

theorem notebook_miss_unchanged_witness:
  "\<not> dict_contains ''b'' [(''a'', StrBody ''x'')] \<and>
   modify_note_content [(''a'', StrBody ''x'')] ''b'' (StrBody ''y'')
     = ([(''a'', StrBody ''x'')], NoteNotFound) \<and>
   delete_note [(''a'', StrBody ''x'')] ''b'' = ([(''a'', StrBody ''x'')], NoteNotFound)"
proof -
  have h: "\<not> dict_contains ''b'' [(''a'', StrBody ''x'')]"
    by (simp add: dict_contains_def)
  show ?thesis
    using h notebook_miss_unchanged [OF h, of "StrBody ''y''"] by simp
qed

lemma tag_note_str_body:
  "map_of nb title = Some (StrBody s) \<Longrightarrow> tag_note nb title tag = Inl TypeError"
  by (simp add: tag_note_def)

lemma tag_note_dict_with_tags:
  "map_of nb title = Some (DictBody d) \<Longrightarrow> map_of d ''tags'' = Some (VList ts) \<Longrightarrow>
     tag_note nb title tag =
       Inr (dict_setitem nb title (DictBody (dict_setitem d ''tags'' (VList (ts @ [tag])))),
            TagAdded)"
  by (simp add: tag_note_def dict_contains_map_of)

lemma tag_note_dict_without_tags:
  "map_of nb title = Some (DictBody d) \<Longrightarrow> map_of d ''tags'' = None \<Longrightarrow>
     tag_note nb title tag =
       Inr (dict_setitem nb title (DictBody (dict_setitem d ''tags'' (VList [tag]))), TagAdded)"
  by (simp add: tag_note_def dict_contains_map_of)

text \<open>
  C6. The claim says that tagging a note whose body is a plain string turns the body into
  a structured value with the one tag. On a body that is a dict the method does set or
  extend the list, without removing duplicates, but on a string, which is what the driver
  stores, it raises \<open>TypeError\<close> and tags nothing.
\<close>

theorem tag_note_plain_string_raises:
  "tag_note (add_note [] ''todo'' (StrBody ''buy milk'')) ''todo'' ''work'' = Inl TypeError"
  by (simp add: tag_note_def add_note_def dict_setitem_def)

end
